theory Spec2Isabelle
  imports Main "HOL-Library.Word"
begin

section \<open>Values, dictionaries and exceptions\<close>

text \<open>
  The models exchange untyped values (\<open>Any\<close>) with their callers: what a JSON
  parser produces. A float is carried as its binary64 bit pattern; the classes never
  compute with a number, they only move it between a dictionary and an attribute.
  A dictionary with string keys is a partial map, so two dictionaries are equal exactly
  when they hold the same key-value pairs, whatever the insertion order was (as
  Python's \<open>==\<close> on dictionaries has it).
\<close>

datatype pyval =
    PNone
  | PBool bool
  | PInt int
  | PFloat "64 word"
  | PStr string
  | PList "pyval list"
  | PDict "string \<Rightarrow> pyval option"

type_synonym pydict = "string \<rightharpoonup> pyval"

text \<open>
  The exceptions the two classes can raise or let through. \<open>ValueError c v\<close> stands for
  \<open>ValueError(f"type must match const '{c}', got '{v}'")\<close>: it keeps the two parts the
  message is built from. \<open>TypeError\<close> is what \<open>dict(x)\<close> raises on a value that is no
  mapping.
\<close>

datatype 'v pyerror =
    KeyError string
  | ValueError string 'v
  | TypeError

text \<open>\<open>d.pop(k)\<close>: the value under \<open>k\<close> and the dictionary without \<open>k\<close>, or KeyError.\<close>

definition dict_pop :: "pydict \<Rightarrow> string \<Rightarrow> pyval pyerror + (pyval \<times> pydict)" where
  "dict_pop d k = (case d k of None \<Rightarrow> Inl (KeyError k) | Some v \<Rightarrow> Inr (v, d(k := None)))"

text \<open>\<open>d.update(e)\<close>: every entry of \<open>e\<close> is written into \<open>d\<close>, replacing what was there.\<close>

definition dict_update :: "pydict \<Rightarrow> pydict \<Rightarrow> pydict" where
  "dict_update d e = d ++ e"

text \<open>\<open>d[k]\<close>, \<open>d[k] = v\<close>, \<open>del d[k]\<close> and \<open>k in d\<close>.\<close>

definition dict_getitem :: "pydict \<Rightarrow> string \<Rightarrow> pyval pyerror + pyval" where
  "dict_getitem d k = (case d k of None \<Rightarrow> Inl (KeyError k) | Some v \<Rightarrow> Inr v)"

definition dict_setitem :: "pydict \<Rightarrow> string \<Rightarrow> pyval \<Rightarrow> pydict" where
  "dict_setitem d k v = d(k \<mapsto> v)"

definition dict_delitem :: "pydict \<Rightarrow> string \<Rightarrow> pyval pyerror + pydict" where
  "dict_delitem d k = (case d k of None \<Rightarrow> Inl (KeyError k) | Some v \<Rightarrow> Inr (d(k := None)))"

definition dict_contains :: "pydict \<Rightarrow> string \<Rightarrow> bool" where
  "dict_contains d k = (case d k of None \<Rightarrow> False | Some v \<Rightarrow> True)"

section \<open>AssistantMessageTokens\<close>

text \<open>
  The attrs class of \<open>assistant_message_tokens.py\<close>. The class of the attribute
  \<open>cache\<close>, \<open>AssistantMessageTokensCache\<close>, lives in another module: its instances are
  the type parameter \<open>'c\<close>, and its \<open>to_dict\<close> and \<open>from_dict\<close> are parameters of the
  functions below. The attribute \<open>input_\<close> is the field \<open>input_field\<close> (a name cannot
  end in an underscore here). The values are of type \<open>'v\<close> and the bag of type \<open>'d\<close>:
  \<open>pyval\<close> and the dictionary itself in the value model, \<open>sval\<close> and the address of
  the dictionary object in the store model.
\<close>

record ('v, 'c, 'd) AssistantMessageTokens =
  input_field :: 'v
  "output" :: 'v
  reasoning :: 'v
  cache :: 'c
  additional_properties :: 'd

text \<open>
  The generated \<open>__init__\<close>: four arguments, no validator, and
  \<open>additional_properties\<close> (\<open>init=False, factory=dict\<close>) set to a new empty dictionary.
\<close>

definition AssistantMessageTokens_init ::
  "pyval \<Rightarrow> pyval \<Rightarrow> pyval \<Rightarrow> 'c \<Rightarrow> (pyval, 'c, pydict) AssistantMessageTokens" where
  "AssistantMessageTokens_init i out r c =
     \<lparr>input_field = i, output = out, reasoning = r, cache = c, additional_properties = Map.empty\<rparr>"

definition AssistantMessageTokens_to_dict ::
  "('c \<Rightarrow> pydict) \<Rightarrow> (pyval, 'c, pydict) AssistantMessageTokens \<Rightarrow> pydict" where
  "AssistantMessageTokens_to_dict cache_to_dict self =
     (let i = input_field self;
          out = output self;
          r = reasoning self;
          c = PDict (cache_to_dict (cache self));
          field_dict = Map.empty;
          field_dict = dict_update field_dict (AssistantMessageTokens.additional_properties self);
          field_dict = dict_update field_dict
            [''input'' \<mapsto> i, ''output'' \<mapsto> out, ''reasoning'' \<mapsto> r, ''cache'' \<mapsto> c]
      in field_dict)"

text \<open>
  \<open>from_dict\<close>: \<open>d = dict(src_dict)\<close> is a new dictionary with the entries of the
  argument; here dictionaries are values, so the copy is the value itself (the store
  model further down keeps the two objects apart). The four pops follow in the order
  of the source, each raising KeyError on a missing key; an exception of the nested
  \<open>from_dict\<close> passes through.
\<close>

definition AssistantMessageTokens_from_dict ::
  "(pyval \<Rightarrow> pyval pyerror + 'c) \<Rightarrow> pydict \<Rightarrow> pyval pyerror + (pyval, 'c, pydict) AssistantMessageTokens" where
  "AssistantMessageTokens_from_dict cache_from_dict src_dict =
     (let d = src_dict in
      (case dict_pop d ''input'' of Inl e \<Rightarrow> Inl e | Inr (i, d) \<Rightarrow>
      (case dict_pop d ''output'' of Inl e \<Rightarrow> Inl e | Inr (out, d) \<Rightarrow>
      (case dict_pop d ''reasoning'' of Inl e \<Rightarrow> Inl e | Inr (r, d) \<Rightarrow>
      (case dict_pop d ''cache'' of Inl e \<Rightarrow> Inl e | Inr (cv, d) \<Rightarrow>
      (case cache_from_dict cv of Inl e \<Rightarrow> Inl e | Inr c \<Rightarrow>
        Inr ((AssistantMessageTokens_init i out r c)
               \<lparr>AssistantMessageTokens.additional_properties := d\<rparr>)))))))"

text \<open>The four accessors of the extension bag; \<open>__setitem__\<close> and \<open>__delitem__\<close>
  change the dictionary held by the record, so they return the record after the call.\<close>

definition AssistantMessageTokens_getitem ::
  "(pyval, 'c, pydict) AssistantMessageTokens \<Rightarrow> string \<Rightarrow> pyval pyerror + pyval" where
  "AssistantMessageTokens_getitem self key =
     dict_getitem (AssistantMessageTokens.additional_properties self) key"

definition AssistantMessageTokens_setitem ::
  "(pyval, 'c, pydict) AssistantMessageTokens \<Rightarrow> string \<Rightarrow> pyval \<Rightarrow> (pyval, 'c, pydict) AssistantMessageTokens" where
  "AssistantMessageTokens_setitem self key v =
     self\<lparr>AssistantMessageTokens.additional_properties :=
            dict_setitem (AssistantMessageTokens.additional_properties self) key v\<rparr>"

definition AssistantMessageTokens_delitem ::
  "(pyval, 'c, pydict) AssistantMessageTokens \<Rightarrow> string \<Rightarrow> pyval pyerror + (pyval, 'c, pydict) AssistantMessageTokens" where
  "AssistantMessageTokens_delitem self key =
     (case dict_delitem (AssistantMessageTokens.additional_properties self) key of
        Inl e \<Rightarrow> Inl e
      | Inr d \<Rightarrow> Inr (self\<lparr>AssistantMessageTokens.additional_properties := d\<rparr>))"

definition AssistantMessageTokens_contains ::
  "(pyval, 'c, pydict) AssistantMessageTokens \<Rightarrow> string \<Rightarrow> bool" where
  "AssistantMessageTokens_contains self key =
     dict_contains (AssistantMessageTokens.additional_properties self) key"

text \<open>The keys \<open>to_dict\<close> writes and \<open>from_dict\<close> pops.\<close>

definition AssistantMessageTokens_keys :: "string set" where
  "AssistantMessageTokens_keys = {''input'', ''output'', ''reasoning'', ''cache''}"

section \<open>EventMessageUpdated\<close>

text \<open>
  The attrs class of \<open>event_message_updated.py\<close>. \<open>type_\<close> is annotated
  \<open>Literal['message.updated']\<close>, which nothing enforces at run time, so the attribute
  holds any value; it is the field \<open>type_field\<close>. \<open>EventMessageUpdatedProperties\<close> is
  the type parameter \<open>'p\<close>.
\<close>

record ('v, 'p, 'd) EventMessageUpdated =
  type_field :: 'v
  properties :: 'p
  additional_properties :: 'd

definition EventMessageUpdated_init :: "pyval \<Rightarrow> 'p \<Rightarrow> (pyval, 'p, pydict) EventMessageUpdated" where
  "EventMessageUpdated_init t p =
     \<lparr>type_field = t, properties = p, additional_properties = Map.empty\<rparr>"

definition EventMessageUpdated_to_dict ::
  "('p \<Rightarrow> pydict) \<Rightarrow> (pyval, 'p, pydict) EventMessageUpdated \<Rightarrow> pydict" where
  "EventMessageUpdated_to_dict properties_to_dict self =
     (let t = type_field self;
          p = PDict (properties_to_dict (properties self));
          field_dict = Map.empty;
          field_dict = dict_update field_dict (EventMessageUpdated.additional_properties self);
          field_dict = dict_update field_dict [''type'' \<mapsto> t, ''properties'' \<mapsto> p]
      in field_dict)"

text \<open>
  \<open>from_dict\<close>: the tag is popped and compared with the constant before
  \<open>"properties"\<close> is popped; \<open>cast\<close> does nothing at run time.
\<close>

definition EventMessageUpdated_from_dict ::
  "(pyval \<Rightarrow> pyval pyerror + 'p) \<Rightarrow> pydict \<Rightarrow> pyval pyerror + (pyval, 'p, pydict) EventMessageUpdated" where
  "EventMessageUpdated_from_dict properties_from_dict src_dict =
     (let d = src_dict in
      (case dict_pop d ''type'' of Inl e \<Rightarrow> Inl e | Inr (t, d) \<Rightarrow>
      if t \<noteq> PStr ''message.updated'' then Inl (ValueError ''message.updated'' t)
      else
      (case dict_pop d ''properties'' of Inl e \<Rightarrow> Inl e | Inr (pv, d) \<Rightarrow>
      (case properties_from_dict pv of Inl e \<Rightarrow> Inl e | Inr p \<Rightarrow>
        Inr ((EventMessageUpdated_init t p)
               \<lparr>EventMessageUpdated.additional_properties := d\<rparr>)))))"

definition EventMessageUpdated_getitem ::
  "(pyval, 'p, pydict) EventMessageUpdated \<Rightarrow> string \<Rightarrow> pyval pyerror + pyval" where
  "EventMessageUpdated_getitem self key =
     dict_getitem (EventMessageUpdated.additional_properties self) key"

definition EventMessageUpdated_setitem ::
  "(pyval, 'p, pydict) EventMessageUpdated \<Rightarrow> string \<Rightarrow> pyval \<Rightarrow> (pyval, 'p, pydict) EventMessageUpdated" where
  "EventMessageUpdated_setitem self key v =
     self\<lparr>EventMessageUpdated.additional_properties :=
            dict_setitem (EventMessageUpdated.additional_properties self) key v\<rparr>"

definition EventMessageUpdated_delitem ::
  "(pyval, 'p, pydict) EventMessageUpdated \<Rightarrow> string \<Rightarrow> pyval pyerror + (pyval, 'p, pydict) EventMessageUpdated" where
  "EventMessageUpdated_delitem self key =
     (case dict_delitem (EventMessageUpdated.additional_properties self) key of
        Inl e \<Rightarrow> Inl e
      | Inr d \<Rightarrow> Inr (self\<lparr>EventMessageUpdated.additional_properties := d\<rparr>))"

definition EventMessageUpdated_contains ::
  "(pyval, 'p, pydict) EventMessageUpdated \<Rightarrow> string \<Rightarrow> bool" where
  "EventMessageUpdated_contains self key =
     dict_contains (EventMessageUpdated.additional_properties self) key"

definition EventMessageUpdated_keys :: "string set" where
  "EventMessageUpdated_keys = {''type'', ''properties''}"

section \<open>A nested record class\<close>

text \<open>
  Modelled from the spec: the classes \<open>AssistantMessageTokensCache\<close> and
  \<open>EventMessageUpdatedProperties\<close> are imported by the two modules and are not among
  the source files. The spec gives every record class the same shape (section 4.1):
  named fields popped in declaration order from a copy of the map, the rest kept as the
  extension bag; serialization writes the bag first and the named fields over it. The
  record below is that shape for named fields \<open>fs\<close> that hold plain values. It is used
  only to instantiate the parameters of the two classes at concrete inputs.
\<close>

record ('v, 'd) PlainRecord =
  field_values :: "'v list"
  bag :: 'd

fun pop_fields :: "string list \<Rightarrow> pydict \<Rightarrow> pyval pyerror + (pyval list \<times> pydict)" where
  "pop_fields [] d = Inr ([], d)"
| "pop_fields (k # ks) d =
     (case dict_pop d k of Inl e \<Rightarrow> Inl e | Inr (v, d') \<Rightarrow>
      case pop_fields ks d' of Inl e \<Rightarrow> Inl e | Inr (vs, d'') \<Rightarrow> Inr (v # vs, d''))"

definition PlainRecord_from_dict :: "string list \<Rightarrow> pyval \<Rightarrow> pyval pyerror + (pyval, pydict) PlainRecord" where
  "PlainRecord_from_dict fs src =
     (case src of
        PDict m \<Rightarrow>
          (case pop_fields fs m of Inl e \<Rightarrow> Inl e
           | Inr (vs, d) \<Rightarrow> Inr \<lparr>field_values = vs, bag = d\<rparr>)
      | _ \<Rightarrow> Inl TypeError)"

definition PlainRecord_to_dict :: "string list \<Rightarrow> (pyval, pydict) PlainRecord \<Rightarrow> pydict" where
  "PlainRecord_to_dict fs self =
     dict_update (dict_update Map.empty (bag self)) (map_of (zip fs (field_values self)))"

section \<open>Sequences of public operations\<close>

text \<open>
  What application code can do with a record once it has one: set or delete a bag entry
  through \<open>__setitem__\<close> and \<open>__delitem__\<close>, and assign a named attribute. A
  \<open>__delitem__\<close> that raises leaves the record as it was.
\<close>

datatype 'c AssistantMessageTokens_op =
    AMT_setitem string pyval
  | AMT_delitem string
  | AMT_assign_input pyval
  | AMT_assign_output pyval
  | AMT_assign_reasoning pyval
  | AMT_assign_cache 'c

fun AssistantMessageTokens_do ::
  "(pyval, 'c, pydict) AssistantMessageTokens \<Rightarrow> 'c AssistantMessageTokens_op \<Rightarrow>
   (pyval, 'c, pydict) AssistantMessageTokens" where
  "AssistantMessageTokens_do r (AMT_setitem k v) = AssistantMessageTokens_setitem r k v"
| "AssistantMessageTokens_do r (AMT_delitem k) =
     (case AssistantMessageTokens_delitem r k of Inl e \<Rightarrow> r | Inr r' \<Rightarrow> r')"
| "AssistantMessageTokens_do r (AMT_assign_input v) = r\<lparr>input_field := v\<rparr>"
| "AssistantMessageTokens_do r (AMT_assign_output v) = r\<lparr>output := v\<rparr>"
| "AssistantMessageTokens_do r (AMT_assign_reasoning v) = r\<lparr>reasoning := v\<rparr>"
| "AssistantMessageTokens_do r (AMT_assign_cache c) = r\<lparr>cache := c\<rparr>"

datatype 'p EventMessageUpdated_op =
    EMU_setitem string pyval
  | EMU_delitem string
  | EMU_assign_type pyval
  | EMU_assign_properties 'p

fun EventMessageUpdated_do ::
  "(pyval, 'p, pydict) EventMessageUpdated \<Rightarrow> 'p EventMessageUpdated_op \<Rightarrow>
   (pyval, 'p, pydict) EventMessageUpdated" where
  "EventMessageUpdated_do r (EMU_setitem k v) = EventMessageUpdated_setitem r k v"
| "EventMessageUpdated_do r (EMU_delitem k) =
     (case EventMessageUpdated_delitem r k of Inl e \<Rightarrow> r | Inr r' \<Rightarrow> r')"
| "EventMessageUpdated_do r (EMU_assign_type v) = r\<lparr>type_field := v\<rparr>"
| "EventMessageUpdated_do r (EMU_assign_properties p) = r\<lparr>properties := p\<rparr>"

text \<open>The operations that write a bag entry under one of the keys \<open>ks\<close>.\<close>

fun AMT_sets_key :: "string set \<Rightarrow> 'c AssistantMessageTokens_op \<Rightarrow> bool" where
  "AMT_sets_key ks (AMT_setitem k v) = (k \<in> ks)"
| "AMT_sets_key ks _ = False"

fun EMU_sets_key :: "string set \<Rightarrow> 'p EventMessageUpdated_op \<Rightarrow> bool" where
  "EMU_sets_key ks (EMU_setitem k v) = (k \<in> ks)"
| "EMU_sets_key ks _ = False"

section \<open>Dictionaries as objects in a store\<close>

text \<open>
  Whether \<open>from_dict\<close> changes its argument is a question about objects, not values:
  the argument and the copy \<open>d\<close> are two dictionaries, and a value held by both is one
  object. Here a dictionary object is a cell of a store, named by its index; a cell
  maps keys to immutable values (\<open>Imm\<close>: numbers, strings, \<open>None\<close>, booleans) or to
  references to other cells (\<open>Ref\<close>: nested dictionaries). A new object is a new cell
  at the end of the store; an address below the length of the store is an object that
  exists.
\<close>

datatype sval = Imm pyval | Ref nat

type_synonym sdict = "string \<rightharpoonup> sval"

type_synonym store = "sdict list"

text \<open>\<open>dict(src)\<close>: a new dictionary object with the entries of the one at \<open>a\<close>.\<close>

definition store_dict_copy :: "store \<Rightarrow> nat \<Rightarrow> store \<times> nat" where
  "store_dict_copy s a = (s @ [s ! a], length s)"

text \<open>\<open>d.pop(k)\<close> on the object at \<open>a\<close>: the cell loses the key, or KeyError.\<close>

definition store_dict_pop :: "store \<Rightarrow> nat \<Rightarrow> string \<Rightarrow> (sval pyerror + sval) \<times> store" where
  "store_dict_pop s a k =
     (case (s ! a) k of
        None \<Rightarrow> (Inl (KeyError k), s)
      | Some v \<Rightarrow> (Inr v, s[a := (s ! a)(k := None)]))"

text \<open>
  The constructor gives the new object a new empty dictionary
  (\<open>factory=dict\<close>); \<open>from_dict\<close> then rebinds the attribute to \<open>d\<close>.
\<close>

definition AssistantMessageTokens_init_store ::
  "store \<Rightarrow> sval \<Rightarrow> sval \<Rightarrow> sval \<Rightarrow> 'c \<Rightarrow> (sval, 'c, nat) AssistantMessageTokens \<times> store" where
  "AssistantMessageTokens_init_store s i out r c =
     (\<lparr>input_field = i, output = out, reasoning = r, cache = c,
       additional_properties = length s\<rparr>, s @ [Map.empty])"

definition AssistantMessageTokens_from_dict_store ::
  "(store \<Rightarrow> sval \<Rightarrow> (sval pyerror + 'c) \<times> store) \<Rightarrow> store \<Rightarrow> nat \<Rightarrow>
   (sval pyerror + (sval, 'c, nat) AssistantMessageTokens) \<times> store" where
  "AssistantMessageTokens_from_dict_store cache_from_dict s0 src_dict =
     (case store_dict_copy s0 src_dict of (s, d) \<Rightarrow>
      (case store_dict_pop s d ''input'' of (Inl e, s) \<Rightarrow> (Inl e, s) | (Inr i, s) \<Rightarrow>
      (case store_dict_pop s d ''output'' of (Inl e, s) \<Rightarrow> (Inl e, s) | (Inr out, s) \<Rightarrow>
      (case store_dict_pop s d ''reasoning'' of (Inl e, s) \<Rightarrow> (Inl e, s) | (Inr r, s) \<Rightarrow>
      (case store_dict_pop s d ''cache'' of (Inl e, s) \<Rightarrow> (Inl e, s) | (Inr cv, s) \<Rightarrow>
      (case cache_from_dict s cv of (Inl e, s) \<Rightarrow> (Inl e, s) | (Inr c, s) \<Rightarrow>
      (case AssistantMessageTokens_init_store s i out r c of (obj, s) \<Rightarrow>
        (Inr (obj\<lparr>AssistantMessageTokens.additional_properties := d\<rparr>), s))))))))"

definition EventMessageUpdated_init_store ::
  "store \<Rightarrow> sval \<Rightarrow> 'p \<Rightarrow> (sval, 'p, nat) EventMessageUpdated \<times> store" where
  "EventMessageUpdated_init_store s t p =
     (\<lparr>type_field = t, properties = p, additional_properties = length s\<rparr>, s @ [Map.empty])"

definition EventMessageUpdated_from_dict_store ::
  "(store \<Rightarrow> sval \<Rightarrow> (sval pyerror + 'p) \<times> store) \<Rightarrow> store \<Rightarrow> nat \<Rightarrow>
   (sval pyerror + (sval, 'p, nat) EventMessageUpdated) \<times> store" where
  "EventMessageUpdated_from_dict_store properties_from_dict s0 src_dict =
     (case store_dict_copy s0 src_dict of (s, d) \<Rightarrow>
      (case store_dict_pop s d ''type'' of (Inl e, s) \<Rightarrow> (Inl e, s) | (Inr t, s) \<Rightarrow>
      if t \<noteq> Imm (PStr ''message.updated'') then (Inl (ValueError ''message.updated'' t), s)
      else
      (case store_dict_pop s d ''properties'' of (Inl e, s) \<Rightarrow> (Inl e, s) | (Inr pv, s) \<Rightarrow>
      (case properties_from_dict s pv of (Inl e, s) \<Rightarrow> (Inl e, s) | (Inr p, s) \<Rightarrow>
      (case EventMessageUpdated_init_store s t p of (obj, s) \<Rightarrow>
        (Inr (obj\<lparr>EventMessageUpdated.additional_properties := d\<rparr>), s))))))"

text \<open>
  Modelled from the spec: the nested record class of section 4.1 on the store (the
  classes \<open>AssistantMessageTokensCache\<close> and \<open>EventMessageUpdatedProperties\<close> are not
  among the source files). It copies the dictionary its argument refers to and pops its
  named fields \<open>fs\<close> from the copy; an argument that is no dictionary is a TypeError.
\<close>

fun store_pop_fields ::
  "string list \<Rightarrow> store \<Rightarrow> nat \<Rightarrow> (sval pyerror + sval list) \<times> store" where
  "store_pop_fields [] s d = (Inr [], s)"
| "store_pop_fields (k # ks) s d =
     (case store_dict_pop s d k of (Inl e, s') \<Rightarrow> (Inl e, s') | (Inr v, s') \<Rightarrow>
       (case store_pop_fields ks s' d of (Inl e, s'') \<Rightarrow> (Inl e, s'')
        | (Inr vs, s'') \<Rightarrow> (Inr (v # vs), s'')))"

definition PlainRecord_from_dict_store ::
  "string list \<Rightarrow> store \<Rightarrow> sval \<Rightarrow> (sval pyerror + (sval, nat) PlainRecord) \<times> store" where
  "PlainRecord_from_dict_store fs s0 src =
     (case src of
        Imm v \<Rightarrow> (Inl TypeError, s0)
      | Ref a \<Rightarrow>
          (case store_dict_copy s0 a of (s, d) \<Rightarrow>
           (case store_pop_fields fs s d of (Inl e, s) \<Rightarrow> (Inl e, s)
            | (Inr vs, s) \<Rightarrow> (Inr \<lparr>field_values = vs, bag = d\<rparr>, s))))"

section \<open>Example inputs\<close>

text \<open>
  The payloads of the spec's section 8, with \<open>read\<close> and \<open>write\<close> as the named fields
  of the nested cache record and \<open>info\<close> as the named field of the nested properties
  record.
\<close>

definition cache_fields :: "string list" where
  "cache_fields = [''read'', ''write'']"

definition example_cache :: "(pyval, pydict) PlainRecord" where
  "example_cache = \<lparr>field_values = [PInt 3, PInt 4], bag = [''tier'' \<mapsto> PStr ''hot'']\<rparr>"

definition example_tokens :: "(pyval, (pyval, pydict) PlainRecord, pydict) AssistantMessageTokens" where
  "example_tokens =
     \<lparr>input_field = PInt 10, output = PInt 1, reasoning = PInt 0, cache = example_cache,
      additional_properties = [''extra'' \<mapsto> PInt 42]\<rparr>"

definition example_tokens_dict :: pydict where
  "example_tokens_dict =
     [''input'' \<mapsto> PInt 10, ''output'' \<mapsto> PInt 1, ''reasoning'' \<mapsto> PInt 0,
      ''cache'' \<mapsto> PDict [''read'' \<mapsto> PInt 3, ''write'' \<mapsto> PInt 4, ''tier'' \<mapsto> PStr ''hot''],
      ''extra'' \<mapsto> PInt 42]"

definition properties_fields :: "string list" where
  "properties_fields = [''info'']"

definition example_properties :: "(pyval, pydict) PlainRecord" where
  "example_properties = \<lparr>field_values = [PStr ''msg_1''], bag = Map.empty\<rparr>"

definition example_event :: "(pyval, (pyval, pydict) PlainRecord, pydict) EventMessageUpdated" where
  "example_event =
     \<lparr>type_field = PStr ''message.updated'', properties = example_properties,
      additional_properties = [''extra'' \<mapsto> PInt 42]\<rparr>"

definition example_event_dict :: pydict where
  "example_event_dict =
     [''type'' \<mapsto> PStr ''message.updated'',
      ''properties'' \<mapsto> PDict [''info'' \<mapsto> PStr ''msg_1''],
      ''extra'' \<mapsto> PInt 42]"

text \<open>
  The same payloads as objects: cell 0 is the token-usage map, cell 1 its cache
  sub-object, cell 2 the event map, cell 3 its properties sub-object.
\<close>

definition example_store :: store where
  "example_store =
     [[''input'' \<mapsto> Imm (PInt 10), ''output'' \<mapsto> Imm (PInt 1), ''reasoning'' \<mapsto> Imm (PInt 0),
       ''cache'' \<mapsto> Ref 1, ''extra'' \<mapsto> Imm (PInt 42)],
      [''read'' \<mapsto> Imm (PInt 3), ''write'' \<mapsto> Imm (PInt 4), ''tier'' \<mapsto> Imm (PStr ''hot'')],
      [''type'' \<mapsto> Imm (PStr ''message.updated''), ''properties'' \<mapsto> Ref 3,
       ''extra'' \<mapsto> Imm (PInt 42)],
      [''info'' \<mapsto> Imm (PStr ''msg_1'')]]"

section \<open>What the two conversions compute\<close>

lemma AMT_to_dict_apply:
  "AssistantMessageTokens_to_dict ct r =
     (AssistantMessageTokens.additional_properties r)
       (''input'' \<mapsto> input_field r, ''output'' \<mapsto> output r,
        ''reasoning'' \<mapsto> reasoning r, ''cache'' \<mapsto> PDict (ct (cache r)))"
  by (simp add: AssistantMessageTokens_to_dict_def dict_update_def Let_def)

lemma EMU_to_dict_apply:
  "EventMessageUpdated_to_dict pt e =
     (EventMessageUpdated.additional_properties e)
       (''type'' \<mapsto> type_field e, ''properties'' \<mapsto> PDict (pt (properties e)))"
  by (simp add: EventMessageUpdated_to_dict_def dict_update_def Let_def)

lemma AMT_from_dict_cases:
  "AssistantMessageTokens_from_dict cf m =
    (case m ''input'' of None \<Rightarrow> Inl (KeyError ''input'') | Some i \<Rightarrow>
     (case m ''output'' of None \<Rightarrow> Inl (KeyError ''output'') | Some out \<Rightarrow>
     (case m ''reasoning'' of None \<Rightarrow> Inl (KeyError ''reasoning'') | Some r \<Rightarrow>
     (case m ''cache'' of None \<Rightarrow> Inl (KeyError ''cache'') | Some cv \<Rightarrow>
     (case cf cv of Inl e \<Rightarrow> Inl e | Inr c \<Rightarrow>
       Inr \<lparr>input_field = i, output = out, reasoning = r, cache = c,
            additional_properties = m |` (- AssistantMessageTokens_keys)\<rparr>)))))"
proof -
  have "((((m(''input'' := None))(''output'' := None))(''reasoning'' := None))(''cache'' := None))
        = m |` (- AssistantMessageTokens_keys)"
    by (rule ext) (simp add: restrict_map_def AssistantMessageTokens_keys_def)
  then show ?thesis
    by (simp add: AssistantMessageTokens_from_dict_def dict_pop_def AssistantMessageTokens_init_def
        split: option.splits sum.splits)
qed

lemma EMU_from_dict_cases:
  "EventMessageUpdated_from_dict pf m =
    (case m ''type'' of None \<Rightarrow> Inl (KeyError ''type'') | Some t \<Rightarrow>
     if t \<noteq> PStr ''message.updated'' then Inl (ValueError ''message.updated'' t) else
     (case m ''properties'' of None \<Rightarrow> Inl (KeyError ''properties'') | Some pv \<Rightarrow>
     (case pf pv of Inl e \<Rightarrow> Inl e | Inr p \<Rightarrow>
       Inr \<lparr>type_field = t, properties = p,
            additional_properties = m |` (- EventMessageUpdated_keys)\<rparr>)))"
proof -
  have "((m(''type'' := None))(''properties'' := None)) = m |` (- EventMessageUpdated_keys)"
    by (rule ext) (simp add: restrict_map_def EventMessageUpdated_keys_def)
  then show ?thesis
    by (simp add: EventMessageUpdated_from_dict_def dict_pop_def EventMessageUpdated_init_def
        split: option.splits sum.splits)
qed

lemma restrict_update_disjoint_AMT:
  assumes "dom b \<inter> AssistantMessageTokens_keys = {}"
  shows "(b(''input'' \<mapsto> i, ''output'' \<mapsto> out, ''reasoning'' \<mapsto> r, ''cache'' \<mapsto> c))
           |` (- AssistantMessageTokens_keys) = b"
proof (rule ext)
  fix k
  show "((b(''input'' \<mapsto> i, ''output'' \<mapsto> out, ''reasoning'' \<mapsto> r, ''cache'' \<mapsto> c))
           |` (- AssistantMessageTokens_keys)) k = b k"
  proof (cases "k \<in> AssistantMessageTokens_keys")
    case True
    with assms have "b k = None" by (auto simp: dom_def)
    with True show ?thesis by (simp add: restrict_map_def)
  next
    case False
    then show ?thesis by (simp add: restrict_map_def AssistantMessageTokens_keys_def)
  qed
qed

lemma restrict_update_disjoint_EMU:
  assumes "dom b \<inter> EventMessageUpdated_keys = {}"
  shows "(b(''type'' \<mapsto> t, ''properties'' \<mapsto> p)) |` (- EventMessageUpdated_keys) = b"
proof (rule ext)
  fix k
  show "((b(''type'' \<mapsto> t, ''properties'' \<mapsto> p)) |` (- EventMessageUpdated_keys)) k = b k"
  proof (cases "k \<in> EventMessageUpdated_keys")
    case True
    with assms have "b k = None" by (auto simp: dom_def)
    with True show ?thesis by (simp add: restrict_map_def)
  next
    case False
    then show ?thesis by (simp add: restrict_map_def EventMessageUpdated_keys_def)
  qed
qed

lemma AMT_roundtrip:
  assumes disj: "dom (AssistantMessageTokens.additional_properties r) \<inter> AssistantMessageTokens_keys = {}"
    and nested: "cf (PDict (ct (cache r))) = Inr (cache r)"
  shows "AssistantMessageTokens_from_dict cf (AssistantMessageTokens_to_dict ct r) = Inr r"
proof -
  let ?m = "AssistantMessageTokens_to_dict ct r"
  have rest: "?m |` (- AssistantMessageTokens_keys) = AssistantMessageTokens.additional_properties r"
    unfolding AMT_to_dict_apply by (rule restrict_update_disjoint_AMT[OF disj])
  have look: "?m ''input'' = Some (input_field r)" "?m ''output'' = Some (output r)"
    "?m ''reasoning'' = Some (reasoning r)" "?m ''cache'' = Some (PDict (ct (cache r)))"
    by (simp_all add: AMT_to_dict_apply)
  show ?thesis
    unfolding AMT_from_dict_cases[of cf ?m] by (simp add: look rest nested)
qed

lemma EMU_roundtrip:
  assumes disj: "dom (EventMessageUpdated.additional_properties e) \<inter> EventMessageUpdated_keys = {}"
    and tag: "type_field e = PStr ''message.updated''"
    and nested: "pf (PDict (pt (properties e))) = Inr (properties e)"
  shows "EventMessageUpdated_from_dict pf (EventMessageUpdated_to_dict pt e) = Inr e"
proof -
  let ?m = "EventMessageUpdated_to_dict pt e"
  have rest: "?m |` (- EventMessageUpdated_keys) = EventMessageUpdated.additional_properties e"
    unfolding EMU_to_dict_apply by (rule restrict_update_disjoint_EMU[OF disj])
  have look: "?m ''type'' = Some (PStr ''message.updated'')"
    "?m ''properties'' = Some (PDict (pt (properties e)))"
    by (simp_all add: EMU_to_dict_apply tag)
  have "\<lparr>type_field = PStr ''message.updated'', properties = properties e,
          additional_properties = EventMessageUpdated.additional_properties e\<rparr> = e"
    using tag by (cases e) simp
  then show ?thesis
    unfolding EMU_from_dict_cases[of pf ?m] by (simp add: look rest nested)
qed

lemma AMT_reserialize:
  assumes ok: "AssistantMessageTokens_from_dict cf m = Inr r"
    and nested: "m ''cache'' = Some (PDict (ct (cache r)))"
  shows "AssistantMessageTokens_to_dict ct r = m"
proof -
  from ok obtain i out rs cv where
    m: "m ''input'' = Some i" "m ''output'' = Some out" "m ''reasoning'' = Some rs"
       "m ''cache'' = Some cv" and
    r: "r = \<lparr>input_field = i, output = out, reasoning = rs, cache = cache r,
             additional_properties = m |` (- AssistantMessageTokens_keys)\<rparr>"
    unfolding AMT_from_dict_cases by (auto split: option.splits sum.splits)
  have fields: "input_field r = i" "output r = out" "reasoning r = rs"
    "AssistantMessageTokens.additional_properties r = m |` (- AssistantMessageTokens_keys)"
    by (subst r, simp)+
  show ?thesis
  proof (rule ext)
    fix k
    show "AssistantMessageTokens_to_dict ct r k = m k"
      using m nested
      by (simp add: AMT_to_dict_apply fields restrict_map_def AssistantMessageTokens_keys_def)
  qed
qed

lemma EMU_reserialize:
  assumes ok: "EventMessageUpdated_from_dict pf m = Inr e"
    and nested: "m ''properties'' = Some (PDict (pt (properties e)))"
  shows "EventMessageUpdated_to_dict pt e = m"
proof -
  from ok obtain pv where
    m: "m ''type'' = Some (PStr ''message.updated'')" "m ''properties'' = Some pv" and
    e: "e = \<lparr>type_field = PStr ''message.updated'', properties = properties e,
             additional_properties = m |` (- EventMessageUpdated_keys)\<rparr>"
    unfolding EMU_from_dict_cases by (auto split: option.splits sum.splits if_splits)
  have fields: "type_field e = PStr ''message.updated''"
    "EventMessageUpdated.additional_properties e = m |` (- EventMessageUpdated_keys)"
    by (subst e, simp)+
  show ?thesis
  proof (rule ext)
    fix k
    show "EventMessageUpdated_to_dict pt e k = m k"
      using m nested
      by (simp add: EMU_to_dict_apply fields restrict_map_def EventMessageUpdated_keys_def)
  qed
qed

lemma AMT_from_dict_bag:
  assumes "AssistantMessageTokens_from_dict cf m = Inr r"
  shows "AssistantMessageTokens.additional_properties r = m |` (- AssistantMessageTokens_keys)"
    and "m ''input'' = Some (input_field r)" and "m ''output'' = Some (output r)"
    and "m ''reasoning'' = Some (reasoning r)"
    and "\<exists>cv. m ''cache'' = Some cv \<and> cf cv = Inr (cache r)"
  using assms unfolding AMT_from_dict_cases
  by (auto split: option.splits sum.splits)

lemma EMU_from_dict_bag:
  assumes "EventMessageUpdated_from_dict pf m = Inr e"
  shows "EventMessageUpdated.additional_properties e = m |` (- EventMessageUpdated_keys)"
    and "m ''type'' = Some (type_field e)" and "type_field e = PStr ''message.updated''"
    and "\<exists>pv. m ''properties'' = Some pv \<and> pf pv = Inr (properties e)"
  using assms unfolding EMU_from_dict_cases
  by (auto split: option.splits sum.splits if_splits)

lemma pop_fields_present:
  "distinct fs \<Longrightarrow> set fs \<subseteq> dom m \<Longrightarrow>
   pop_fields fs m = Inr (map (\<lambda>k. the (m k)) fs, m |` (- set fs))"
proof (induction fs arbitrary: m)
  case Nil
  then show ?case by (simp add: restrict_map_def)
next
  case (Cons k ks)
  from Cons.prems obtain v where v: "m k = Some v" by auto
  define m' where "m' = m(k := None)"
  have sub: "set ks \<subseteq> dom m'" using Cons.prems by (auto simp: m'_def)
  have d: "distinct ks" using Cons.prems by simp
  have vals: "map (\<lambda>x. the (m' x)) ks = map (\<lambda>x. the (m x)) ks"
    using Cons.prems by (intro map_cong) (auto simp: m'_def)
  have rest: "m' |` (- set ks) = m |` (- set (k # ks))"
    by (rule ext) (simp add: restrict_map_def m'_def)
  have pop: "dict_pop m k = Inr (v, m')" by (simp add: dict_pop_def v m'_def)
  have "pop_fields ks m' = Inr (map (\<lambda>x. the (m x)) ks, m |` (- set (k # ks)))"
    using Cons.IH[OF d sub] by (simp only: vals rest)
  then show ?case by (simp add: pop v)
qed

lemma pop_fields_success_dom:
  "pop_fields fs m = Inr (vs, d) \<Longrightarrow> set fs \<subseteq> dom m"
proof (induction fs arbitrary: m vs d)
  case Nil
  then show ?case by simp
next
  case (Cons k ks)
  define m' where "m' = m(k := None)"
  from Cons.prems(1) obtain v where v: "m k = Some v"
    by (auto simp: dict_pop_def split: option.splits)
  then have pop: "dict_pop m k = Inr (v, m')" by (simp add: dict_pop_def m'_def)
  from Cons.prems(1) obtain vs' where "pop_fields ks m' = Inr (vs', d)"
    by (auto simp: pop split: sum.splits)
  from Cons.IH[OF this] have "set ks \<subseteq> dom m'" .
  then have "set ks \<subseteq> dom m" by (auto simp: m'_def split: if_splits)
  with v show ?case by auto
qed

lemma PlainRecord_roundtrip:
  assumes "distinct fs" and "length (field_values r) = length fs"
    and "dom (bag r) \<inter> set fs = {}"
  shows "PlainRecord_from_dict fs (PDict (PlainRecord_to_dict fs r)) = Inr r"
proof -
  let ?vs = "field_values r"
  let ?m = "bag r ++ map_of (zip fs ?vs)"
  have dz: "dom (map_of (zip fs ?vs)) = set fs" using assms(2) by (simp add: dom_map_of_zip)
  have sub: "set fs \<subseteq> dom ?m" using dz by auto
  have vals: "map (\<lambda>k. the (?m k)) fs = ?vs"
  proof (rule nth_equalityI)
    show "length (map (\<lambda>k. the (?m k)) fs) = length ?vs" using assms(2) by simp
  next
    fix i assume "i < length (map (\<lambda>k. the (?m k)) fs)"
    then have i: "i < length fs" by simp
    have "map_of (zip fs ?vs) (fs ! i) = Some (?vs ! i)"
      using assms(1,2) i by (simp add: map_of_zip_nth)
    then show "map (\<lambda>k. the (?m k)) fs ! i = ?vs ! i" using i by (simp add: map_add_def)
  qed
  have rest: "?m |` (- set fs) = bag r"
  proof (rule ext)
    fix k
    show "(?m |` (- set fs)) k = bag r k"
    proof (cases "k \<in> set fs")
      case True
      with assms(3) have "bag r k = None" by (auto simp: dom_def)
      with True show ?thesis by (simp add: restrict_map_def)
    next
      case False
      with dz have "map_of (zip fs ?vs) k = None" by (auto simp: dom_def)
      with False show ?thesis by (simp add: restrict_map_def map_add_def)
    qed
  qed
  show ?thesis
    by (simp add: PlainRecord_from_dict_def PlainRecord_to_dict_def dict_update_def
        pop_fields_present[OF assms(1) sub] vals rest)
qed

lemma PlainRecord_reserialize:
  assumes ok: "PlainRecord_from_dict fs v = Inr r" and d: "distinct fs"
  shows "v = PDict (PlainRecord_to_dict fs r)"
proof -
  from ok obtain m where v: "v = PDict m"
    by (cases v) (simp_all add: PlainRecord_from_dict_def)
  from ok v obtain vs b where pf: "pop_fields fs m = Inr (vs, b)"
    and r: "r = \<lparr>field_values = vs, bag = b\<rparr>"
    by (auto simp: PlainRecord_from_dict_def split: sum.splits)
  have sub: "set fs \<subseteq> dom m" by (rule pop_fields_success_dom[OF pf])
  from pf pop_fields_present[OF d sub]
  have vs: "vs = map (\<lambda>k. the (m k)) fs" and b: "b = m |` (- set fs)" by simp_all
  have "PlainRecord_to_dict fs r = m"
  proof (rule ext)
    fix k
    show "PlainRecord_to_dict fs r k = m k"
    proof (cases "k \<in> set fs")
      case True
      then obtain i where i: "i < length fs" "fs ! i = k" by (auto simp: in_set_conv_nth)
      have "map_of (zip fs vs) (fs ! i) = Some (vs ! i)"
        using d i(1) vs by (simp add: map_of_zip_nth)
      moreover have "vs ! i = the (m k)" using i vs by simp
      moreover obtain x where "m k = Some x" using sub True by auto
      ultimately show ?thesis using i
        by (simp add: PlainRecord_to_dict_def dict_update_def r map_add_def)
    next
      case False
      have "dom (map_of (zip fs vs)) = set fs" using vs by (simp add: dom_map_of_zip)
      with False have "map_of (zip fs vs) k = None" by (auto simp: dom_def)
      with False show ?thesis
        by (simp add: PlainRecord_to_dict_def dict_update_def r b map_add_def restrict_map_def)
    qed
  qed
  with v show ?thesis by simp
qed

lemma example_cache_to_dict:
  "PlainRecord_to_dict cache_fields example_cache =
     [''read'' \<mapsto> PInt 3, ''write'' \<mapsto> PInt 4, ''tier'' \<mapsto> PStr ''hot'']"
  by (rule ext) (simp add: PlainRecord_to_dict_def cache_fields_def example_cache_def
      dict_update_def map_add_def)

lemma example_properties_to_dict:
  "PlainRecord_to_dict properties_fields example_properties = [''info'' \<mapsto> PStr ''msg_1'']"
  by (rule ext) (simp add: PlainRecord_to_dict_def properties_fields_def example_properties_def
      dict_update_def map_add_def)

lemma example_cache_nested:
  "PlainRecord_from_dict cache_fields (PDict (PlainRecord_to_dict cache_fields example_cache))
     = Inr example_cache"
  by (rule PlainRecord_roundtrip) (simp_all add: cache_fields_def example_cache_def)

lemma example_properties_nested:
  "PlainRecord_from_dict properties_fields
     (PDict (PlainRecord_to_dict properties_fields example_properties)) = Inr example_properties"
  by (rule PlainRecord_roundtrip) (simp_all add: properties_fields_def example_properties_def)

lemma example_tokens_to_dict:
  "AssistantMessageTokens_to_dict (PlainRecord_to_dict cache_fields) example_tokens
     = example_tokens_dict"
  unfolding AMT_to_dict_apply
  by (rule ext) (simp add: example_tokens_def example_tokens_dict_def example_cache_to_dict)

lemma example_event_to_dict:
  "EventMessageUpdated_to_dict (PlainRecord_to_dict properties_fields) example_event
     = example_event_dict"
  unfolding EMU_to_dict_apply
  by (rule ext) (simp add: example_event_def example_event_dict_def
      example_properties_to_dict)

lemma example_tokens_disjoint:
  "dom (AssistantMessageTokens.additional_properties example_tokens) \<inter> AssistantMessageTokens_keys = {}"
  by (simp add: example_tokens_def AssistantMessageTokens_keys_def)

lemma example_event_disjoint:
  "dom (EventMessageUpdated.additional_properties example_event) \<inter> EventMessageUpdated_keys = {}"
  by (simp add: example_event_def EventMessageUpdated_keys_def)

lemma example_tokens_cache: "cache example_tokens = example_cache"
  by (simp add: example_tokens_def)

lemma example_event_properties: "properties example_event = example_properties"
  by (simp add: example_event_def)

lemma example_tokens_from_dict:
  "AssistantMessageTokens_from_dict (PlainRecord_from_dict cache_fields) example_tokens_dict
     = Inr example_tokens"
  unfolding example_tokens_to_dict[symmetric]
  by (rule AMT_roundtrip) (simp_all add: example_tokens_disjoint example_tokens_cache example_cache_nested)

lemma example_event_from_dict:
  "EventMessageUpdated_from_dict (PlainRecord_from_dict properties_fields) example_event_dict
     = Inr example_event"
  unfolding example_event_to_dict[symmetric]
  by (rule EMU_roundtrip)
     (simp_all add: example_event_disjoint example_event_properties example_properties_nested,
      simp add: example_event_def)

section \<open>The claims\<close>

text \<open>
  C1. Round trip: for a record whose bag keys are disjoint from its named-field keys
  and whose named fields are valid (the tag of an \<open>EventMessageUpdated\<close> is the literal,
  the nested record itself survives its own round trip), \<open>from_dict\<close> of \<open>to_dict\<close> is
  the record again, equal in every named field and in the bag.
\<close>

theorem roundtrip_to_dict_from_dict:
  "(dom (AssistantMessageTokens.additional_properties r) \<inter> AssistantMessageTokens_keys = {} \<and>
    cf (PDict (ct (cache r))) = Inr (cache r)
    \<longrightarrow> AssistantMessageTokens_from_dict cf (AssistantMessageTokens_to_dict ct r) = Inr r) \<and>
   (dom (EventMessageUpdated.additional_properties e) \<inter> EventMessageUpdated_keys = {} \<and>
    type_field e = PStr ''message.updated'' \<and>
    pf (PDict (pt (properties e))) = Inr (properties e)
    \<longrightarrow> EventMessageUpdated_from_dict pf (EventMessageUpdated_to_dict pt e) = Inr e)"
  using AMT_roundtrip[of r cf ct] EMU_roundtrip[of e pf pt] by blast

theorem roundtrip_to_dict_from_dict_witness:
  "AssistantMessageTokens_from_dict (PlainRecord_from_dict cache_fields)
     (AssistantMessageTokens_to_dict (PlainRecord_to_dict cache_fields) example_tokens)
     = Inr example_tokens \<and>
   EventMessageUpdated_from_dict (PlainRecord_from_dict properties_fields)
     (EventMessageUpdated_to_dict (PlainRecord_to_dict properties_fields) example_event)
     = Inr example_event"
  using roundtrip_to_dict_from_dict[of example_tokens "PlainRecord_from_dict cache_fields"
      "PlainRecord_to_dict cache_fields" example_event "PlainRecord_from_dict properties_fields"
      "PlainRecord_to_dict properties_fields"]
  by (simp add: example_tokens_disjoint example_event_disjoint example_tokens_cache
      example_event_properties example_cache_nested example_properties_nested)
     (simp add: example_event_def)

text \<open>
  C3. In the map \<open>to_dict\<close> returns, the value under each named-field key is the named
  field's serialized value, for every record and so also for one whose bag holds an
  entry under the same key: the second \<open>update\<close> overwrites the first.
\<close>

theorem to_dict_named_fields_win:
  "AssistantMessageTokens_to_dict ct r ''input'' = Some (input_field r) \<and>
   AssistantMessageTokens_to_dict ct r ''output'' = Some (output r) \<and>
   AssistantMessageTokens_to_dict ct r ''reasoning'' = Some (reasoning r) \<and>
   AssistantMessageTokens_to_dict ct r ''cache'' = Some (PDict (ct (cache r))) \<and>
   EventMessageUpdated_to_dict pt e ''type'' = Some (type_field e) \<and>
   EventMessageUpdated_to_dict pt e ''properties'' = Some (PDict (pt (properties e)))"
  by (simp add: AMT_to_dict_apply EMU_to_dict_apply)

text \<open>
  C9. Construction from named-field values is defined for all values (nothing is
  checked, the tag of an \<open>EventMessageUpdated\<close> included) and gives the record with
  these fields and an empty bag.
\<close>

theorem init_empty_bag:
  "AssistantMessageTokens_init i out r c =
     \<lparr>input_field = i, output = out, reasoning = r, cache = c,
      additional_properties = Map.empty\<rparr> \<and>
   AssistantMessageTokens.additional_properties (AssistantMessageTokens_init i out r c) = Map.empty \<and>
   EventMessageUpdated_init t p = \<lparr>type_field = t, properties = p, additional_properties = Map.empty\<rparr> \<and>
   EventMessageUpdated.additional_properties (EventMessageUpdated_init t p) = Map.empty"
  by (simp add: AssistantMessageTokens_init_def EventMessageUpdated_init_def)

text \<open>
  C2. \<open>EventMessageUpdated.from_dict\<close> raises the ValueError of the tag check, and
  builds no record, whenever the value under \<open>"type"\<close> is a string other than
  \<open>"message.updated"\<close>. When it is that string the check passes: the outcome is that
  of the rest of the function (the pop of \<open>"properties"\<close>, the nested \<open>from_dict\<close>,
  the record).
\<close>

theorem EventMessageUpdated_tag_enforcement:
  "(m ''type'' = Some (PStr s) \<and> s \<noteq> ''message.updated''
      \<longrightarrow> EventMessageUpdated_from_dict pf m = Inl (ValueError ''message.updated'' (PStr s))) \<and>
   (m ''type'' = Some (PStr ''message.updated'')
      \<longrightarrow> EventMessageUpdated_from_dict pf m =
          (case m ''properties'' of
             None \<Rightarrow> Inl (KeyError ''properties'')
           | Some pv \<Rightarrow>
               (case pf pv of
                  Inl e \<Rightarrow> Inl e
                | Inr p \<Rightarrow> Inr \<lparr>type_field = PStr ''message.updated'', properties = p,
                              additional_properties = m |` (- EventMessageUpdated_keys)\<rparr>)))"
  by (simp add: EMU_from_dict_cases)

theorem EventMessageUpdated_tag_enforcement_witness:
  "EventMessageUpdated_from_dict (PlainRecord_from_dict properties_fields)
     (example_event_dict(''type'' \<mapsto> PStr ''wrong.value''))
     = Inl (ValueError ''message.updated'' (PStr ''wrong.value'')) \<and>
   EventMessageUpdated_from_dict (PlainRecord_from_dict properties_fields) example_event_dict
     = Inr example_event"
proof -
  have wrong: "(example_event_dict(''type'' \<mapsto> PStr ''wrong.value'')) ''type''
                 = Some (PStr ''wrong.value'') \<and> ''wrong.value'' \<noteq> ''message.updated''"
    by simp
  have right: "example_event_dict ''type'' = Some (PStr ''message.updated'')"
    by (simp add: example_event_dict_def)
  from EventMessageUpdated_tag_enforcement
         [of "example_event_dict(''type'' \<mapsto> PStr ''wrong.value'')" "''wrong.value''"
             "PlainRecord_from_dict properties_fields"] wrong
  have 1: "EventMessageUpdated_from_dict (PlainRecord_from_dict properties_fields)
             (example_event_dict(''type'' \<mapsto> PStr ''wrong.value''))
           = Inl (ValueError ''message.updated'' (PStr ''wrong.value''))"
    by blast
  from EventMessageUpdated_tag_enforcement
         [of example_event_dict "''message.updated''" "PlainRecord_from_dict properties_fields"] right
  have "EventMessageUpdated_from_dict (PlainRecord_from_dict properties_fields) example_event_dict =
          (case example_event_dict ''properties'' of
             None \<Rightarrow> Inl (KeyError ''properties'')
           | Some pv \<Rightarrow>
               (case PlainRecord_from_dict properties_fields pv of
                  Inl e \<Rightarrow> Inl e
                | Inr p \<Rightarrow> Inr \<lparr>type_field = PStr ''message.updated'', properties = p,
                              additional_properties = example_event_dict |` (- EventMessageUpdated_keys)\<rparr>))"
    by blast
  then have 2: "EventMessageUpdated_from_dict (PlainRecord_from_dict properties_fields)
                  example_event_dict = Inr example_event"
    by (simp add: example_event_from_dict)
  from 1 2 show ?thesis by simp
qed

text \<open>
  C10. The tag is popped and checked before \<open>"properties"\<close> is touched: a map whose
  \<open>"type"\<close> is anything but the literal fails with the ValueError of the tag check,
  whether or not it has \<open>"properties"\<close>; a map without \<open>"type"\<close> fails with
  \<open>KeyError("type")\<close>.
\<close>

theorem EventMessageUpdated_tag_before_properties:
  "(m ''type'' = Some t \<and> t \<noteq> PStr ''message.updated''
      \<longrightarrow> EventMessageUpdated_from_dict pf m = Inl (ValueError ''message.updated'' t)) \<and>
   (m ''type'' = None \<longrightarrow> EventMessageUpdated_from_dict pf m = Inl (KeyError ''type''))"
  by (simp add: EMU_from_dict_cases)

theorem EventMessageUpdated_tag_before_properties_witness:
  "[''type'' \<mapsto> PStr ''wrong.value''] ''properties'' = None \<and>
   EventMessageUpdated_from_dict (PlainRecord_from_dict properties_fields)
     [''type'' \<mapsto> PStr ''wrong.value'']
     = Inl (ValueError ''message.updated'' (PStr ''wrong.value'')) \<and>
   EventMessageUpdated_from_dict (PlainRecord_from_dict properties_fields)
     [''properties'' \<mapsto> PDict [''info'' \<mapsto> PStr ''msg_1'']]
     = Inl (KeyError ''type'')"
  using EventMessageUpdated_tag_before_properties
          [of "[''type'' \<mapsto> PStr ''wrong.value'']" "PStr ''wrong.value''"
              "PlainRecord_from_dict properties_fields"]
        EventMessageUpdated_tag_before_properties
          [of "[''properties'' \<mapsto> PDict [''info'' \<mapsto> PStr ''msg_1'']]" PNone
              "PlainRecord_from_dict properties_fields"]
  by simp

text \<open>
  C4 (as stated: \<open>from_dict\<close> fails with the missing-field error whenever a required key
  is absent). This does not hold for \<open>EventMessageUpdated\<close>: a map with a wrong tag and
  no \<open>"properties"\<close> fails with the ValueError of the tag check, which comes first.
\<close>

theorem missing_properties_wrong_tag_counterexample:
  "[''type'' \<mapsto> PStr ''wrong.value''] ''properties'' = None \<and>
   EventMessageUpdated_from_dict (PlainRecord_from_dict properties_fields)
     [''type'' \<mapsto> PStr ''wrong.value'']
     = Inl (ValueError ''message.updated'' (PStr ''wrong.value'')) \<and>
   EventMessageUpdated_from_dict (PlainRecord_from_dict properties_fields)
     [''type'' \<mapsto> PStr ''wrong.value'']
     \<noteq> Inl (KeyError ''properties'')"
  by (simp add: EMU_from_dict_cases)

text \<open>
  C4 (amended). \<open>AssistantMessageTokens.from_dict\<close> fails with \<open>KeyError(k)\<close>, \<open>k\<close> the
  first of \<open>"input"\<close>, \<open>"output"\<close>, \<open>"reasoning"\<close>, \<open>"cache"\<close> that the map lacks, whenever
  it lacks one. \<open>EventMessageUpdated.from_dict\<close> fails with \<open>KeyError("type")\<close> when
  \<open>"type"\<close> is absent, and with \<open>KeyError("properties")\<close> when \<open>"type"\<close> holds the
  literal and \<open>"properties"\<close> is absent; when \<open>"type"\<close> holds any other value, the
  ValueError of the tag check is raised first, whether or not \<open>"properties"\<close> is
  present.
\<close>

theorem from_dict_missing_field:
  "(find (\<lambda>k. m k = None) [''input'', ''output'', ''reasoning'', ''cache''] = Some k
      \<longrightarrow> AssistantMessageTokens_from_dict cf m = Inl (KeyError k)) \<and>
   (m' ''type'' = None
      \<longrightarrow> EventMessageUpdated_from_dict pf m' = Inl (KeyError ''type'')) \<and>
   (m' ''type'' = Some (PStr ''message.updated'') \<and> m' ''properties'' = None
      \<longrightarrow> EventMessageUpdated_from_dict pf m' = Inl (KeyError ''properties'')) \<and>
   (m' ''type'' = Some t \<and> t \<noteq> PStr ''message.updated''
      \<longrightarrow> EventMessageUpdated_from_dict pf m' = Inl (ValueError ''message.updated'' t))"
  by (auto simp: AMT_from_dict_cases EMU_from_dict_cases split: option.splits if_splits)

theorem from_dict_missing_field_witness:
  "AssistantMessageTokens_from_dict (PlainRecord_from_dict cache_fields)
     (example_tokens_dict(''input'' := None)) = Inl (KeyError ''input'') \<and>
   AssistantMessageTokens_from_dict (PlainRecord_from_dict cache_fields)
     (example_tokens_dict(''cache'' := None)) = Inl (KeyError ''cache'') \<and>
   EventMessageUpdated_from_dict (PlainRecord_from_dict properties_fields)
     (example_event_dict(''type'' := None)) = Inl (KeyError ''type'') \<and>
   EventMessageUpdated_from_dict (PlainRecord_from_dict properties_fields)
     (example_event_dict(''properties'' := None)) = Inl (KeyError ''properties'') \<and>
   EventMessageUpdated_from_dict (PlainRecord_from_dict properties_fields)
     (example_event_dict(''type'' \<mapsto> PStr ''wrong.value''))
     = Inl (ValueError ''message.updated'' (PStr ''wrong.value'')) \<and>
   EventMessageUpdated_from_dict (PlainRecord_from_dict properties_fields)
     (example_event_dict(''type'' \<mapsto> PInt 7, ''properties'' := None))
     = Inl (ValueError ''message.updated'' (PInt 7))"
  using from_dict_missing_field
          [of "example_tokens_dict(''input'' := None)" "''input''"
              "PlainRecord_from_dict cache_fields" "example_event_dict(''type'' := None)"
              "PlainRecord_from_dict properties_fields" PNone]
        from_dict_missing_field
          [of "example_tokens_dict(''cache'' := None)" "''cache''"
              "PlainRecord_from_dict cache_fields" "example_event_dict(''properties'' := None)"
              "PlainRecord_from_dict properties_fields" PNone]
        from_dict_missing_field
          [of "example_tokens_dict(''input'' := None)" "''input''"
              "PlainRecord_from_dict cache_fields"
              "example_event_dict(''type'' \<mapsto> PStr ''wrong.value'')"
              "PlainRecord_from_dict properties_fields" "PStr ''wrong.value''"]
        from_dict_missing_field
          [of "example_tokens_dict(''input'' := None)" "''input''"
              "PlainRecord_from_dict cache_fields"
              "example_event_dict(''type'' \<mapsto> PInt 7, ''properties'' := None)"
              "PlainRecord_from_dict properties_fields" "PInt 7"]
  by (simp add: example_tokens_dict_def example_event_dict_def)

text \<open>
  C6. When \<open>from_dict\<close> succeeds, the bag of the record is the input map restricted to
  the keys that are not named-field keys, each value as it was; and \<open>to_dict\<close> of the
  record is the input map again, provided the nested record serializes back to the
  nested value it was read from.
\<close>

theorem from_dict_keeps_unknown_keys:
  "(AssistantMessageTokens_from_dict cf m = Inr r
      \<longrightarrow> AssistantMessageTokens.additional_properties r = m |` (- AssistantMessageTokens_keys) \<and>
          (m ''cache'' = Some (PDict (ct (cache r)))
             \<longrightarrow> AssistantMessageTokens_to_dict ct r = m)) \<and>
   (EventMessageUpdated_from_dict pf m' = Inr e
      \<longrightarrow> EventMessageUpdated.additional_properties e = m' |` (- EventMessageUpdated_keys) \<and>
          (m' ''properties'' = Some (PDict (pt (properties e)))
             \<longrightarrow> EventMessageUpdated_to_dict pt e = m'))"
  using AMT_from_dict_bag(1)[of cf m r] AMT_reserialize[of cf m r ct]
    EMU_from_dict_bag(1)[of pf m' e] EMU_reserialize[of pf m' e pt]
  by blast

theorem from_dict_keeps_unknown_keys_witness:
  "AssistantMessageTokens_from_dict (PlainRecord_from_dict cache_fields) example_tokens_dict
     = Inr example_tokens \<and>
   AssistantMessageTokens.additional_properties example_tokens
     = example_tokens_dict |` (- AssistantMessageTokens_keys) \<and>
   AssistantMessageTokens.additional_properties example_tokens ''extra'' = Some (PInt 42) \<and>
   AssistantMessageTokens_to_dict (PlainRecord_to_dict cache_fields) example_tokens
     = example_tokens_dict \<and>
   EventMessageUpdated_from_dict (PlainRecord_from_dict properties_fields) example_event_dict
     = Inr example_event \<and>
   EventMessageUpdated.additional_properties example_event
     = example_event_dict |` (- EventMessageUpdated_keys) \<and>
   EventMessageUpdated_to_dict (PlainRecord_to_dict properties_fields) example_event
     = example_event_dict"
proof -
  have c: "example_tokens_dict ''cache''
             = Some (PDict (PlainRecord_to_dict cache_fields (cache example_tokens)))"
    by (simp add: example_tokens_cache example_cache_to_dict example_tokens_dict_def)
  have p: "example_event_dict ''properties''
             = Some (PDict (PlainRecord_to_dict properties_fields (properties example_event)))"
    by (simp add: example_event_properties example_properties_to_dict example_event_dict_def)
  have x: "AssistantMessageTokens.additional_properties example_tokens ''extra'' = Some (PInt 42)"
    by (simp add: example_tokens_def)
  show ?thesis
    using from_dict_keeps_unknown_keys
            [of "PlainRecord_from_dict cache_fields" example_tokens_dict example_tokens
                "PlainRecord_to_dict cache_fields" "PlainRecord_from_dict properties_fields"
                example_event_dict example_event "PlainRecord_to_dict properties_fields"]
          example_tokens_from_dict example_event_from_dict c p x
    by simp
qed

text \<open>
  C8. The bag accessors are the dictionary's own: on a key the bag lacks,
  \<open>__getitem__\<close> and \<open>__delitem__\<close> raise \<open>KeyError\<close> and \<open>__contains__\<close> is false; on
  a key it holds, \<open>__getitem__\<close> returns the stored value, \<open>__delitem__\<close> removes that
  entry and nothing else, and \<open>__contains__\<close> is true; \<open>__setitem__\<close> never fails and
  leaves the bag with the key bound to the new value, all else as it was.
\<close>

theorem bag_accessors_map_semantics:
  "(AssistantMessageTokens.additional_properties r k = None \<longrightarrow>
      AssistantMessageTokens_getitem r k = Inl (KeyError k) \<and>
      AssistantMessageTokens_delitem r k = Inl (KeyError k) \<and>
      \<not> AssistantMessageTokens_contains r k) \<and>
   (AssistantMessageTokens.additional_properties r k = Some v \<longrightarrow>
      AssistantMessageTokens_getitem r k = Inr v \<and>
      AssistantMessageTokens_delitem r k =
        Inr (r\<lparr>AssistantMessageTokens.additional_properties :=
                 (AssistantMessageTokens.additional_properties r)(k := None)\<rparr>) \<and>
      AssistantMessageTokens_contains r k) \<and>
   AssistantMessageTokens_setitem r k w =
     r\<lparr>AssistantMessageTokens.additional_properties :=
          (AssistantMessageTokens.additional_properties r)(k \<mapsto> w)\<rparr> \<and>
   (EventMessageUpdated.additional_properties e k = None \<longrightarrow>
      EventMessageUpdated_getitem e k = Inl (KeyError k) \<and>
      EventMessageUpdated_delitem e k = Inl (KeyError k) \<and>
      \<not> EventMessageUpdated_contains e k) \<and>
   (EventMessageUpdated.additional_properties e k = Some v \<longrightarrow>
      EventMessageUpdated_getitem e k = Inr v \<and>
      EventMessageUpdated_delitem e k =
        Inr (e\<lparr>EventMessageUpdated.additional_properties :=
                 (EventMessageUpdated.additional_properties e)(k := None)\<rparr>) \<and>
      EventMessageUpdated_contains e k) \<and>
   EventMessageUpdated_setitem e k w =
     e\<lparr>EventMessageUpdated.additional_properties :=
          (EventMessageUpdated.additional_properties e)(k \<mapsto> w)\<rparr>"
  by (simp add: AssistantMessageTokens_getitem_def AssistantMessageTokens_delitem_def
      AssistantMessageTokens_contains_def AssistantMessageTokens_setitem_def
      EventMessageUpdated_getitem_def EventMessageUpdated_delitem_def
      EventMessageUpdated_contains_def EventMessageUpdated_setitem_def
      dict_getitem_def dict_delitem_def dict_contains_def dict_setitem_def)

theorem bag_accessors_map_semantics_witness:
  "AssistantMessageTokens_getitem example_tokens ''extra'' = Inr (PInt 42) \<and>
   AssistantMessageTokens_contains example_tokens ''extra'' \<and>
   AssistantMessageTokens_delitem example_tokens ''extra'' =
     Inr (example_tokens\<lparr>AssistantMessageTokens.additional_properties := Map.empty\<rparr>) \<and>
   AssistantMessageTokens_getitem example_tokens ''other'' = Inl (KeyError ''other'') \<and>
   AssistantMessageTokens_delitem example_tokens ''other'' = Inl (KeyError ''other'') \<and>
   \<not> AssistantMessageTokens_contains example_tokens ''other'' \<and>
   EventMessageUpdated_getitem example_event ''extra'' = Inr (PInt 42) \<and>
   EventMessageUpdated_contains example_event ''extra'' \<and>
   EventMessageUpdated_delitem example_event ''extra'' =
     Inr (example_event\<lparr>EventMessageUpdated.additional_properties := Map.empty\<rparr>) \<and>
   EventMessageUpdated_getitem example_event ''other'' = Inl (KeyError ''other'') \<and>
   EventMessageUpdated_delitem example_event ''other'' = Inl (KeyError ''other'') \<and>
   \<not> EventMessageUpdated_contains example_event ''other''"
proof -
  have a: "AssistantMessageTokens.additional_properties example_tokens = [''extra'' \<mapsto> PInt 42]"
    by (simp add: example_tokens_def)
  have b: "EventMessageUpdated.additional_properties example_event = [''extra'' \<mapsto> PInt 42]"
    by (simp add: example_event_def)
  show ?thesis
    using bag_accessors_map_semantics
            [of example_tokens "''extra''" "PInt 42" PNone example_event]
          bag_accessors_map_semantics
            [of example_tokens "''other''" PNone PNone example_event]
    by (simp add: a b)
qed

lemma AMT_do_disjoint:
  "dom (AssistantMessageTokens.additional_properties r) \<inter> K = {} \<Longrightarrow>
   \<not> AMT_sets_key K x \<Longrightarrow>
   dom (AssistantMessageTokens.additional_properties (AssistantMessageTokens_do r x)) \<inter> K = {}"
  by (cases x)
     (auto simp: AssistantMessageTokens_setitem_def AssistantMessageTokens_delitem_def
        dict_setitem_def dict_delitem_def split: option.splits if_splits)

lemma AMT_run_disjoint:
  "dom (AssistantMessageTokens.additional_properties r) \<inter> K = {} \<Longrightarrow>
   \<forall>x\<in>set xs. \<not> AMT_sets_key K x \<Longrightarrow>
   dom (AssistantMessageTokens.additional_properties (foldl AssistantMessageTokens_do r xs)) \<inter> K = {}"
proof (induction xs arbitrary: r)
  case Nil
  then show ?case by simp
next
  case (Cons x xs)
  have "dom (AssistantMessageTokens.additional_properties (AssistantMessageTokens_do r x)) \<inter> K = {}"
    using Cons.prems by (intro AMT_do_disjoint) simp_all
  then show ?case using Cons.IH Cons.prems(2) by simp
qed

lemma EMU_do_disjoint:
  "dom (EventMessageUpdated.additional_properties r) \<inter> K = {} \<Longrightarrow>
   \<not> EMU_sets_key K x \<Longrightarrow>
   dom (EventMessageUpdated.additional_properties (EventMessageUpdated_do r x)) \<inter> K = {}"
  by (cases x)
     (auto simp: EventMessageUpdated_setitem_def EventMessageUpdated_delitem_def
        dict_setitem_def dict_delitem_def split: option.splits if_splits)

lemma EMU_run_disjoint:
  "dom (EventMessageUpdated.additional_properties r) \<inter> K = {} \<Longrightarrow>
   \<forall>x\<in>set xs. \<not> EMU_sets_key K x \<Longrightarrow>
   dom (EventMessageUpdated.additional_properties (foldl EventMessageUpdated_do r xs)) \<inter> K = {}"
proof (induction xs arbitrary: r)
  case Nil
  then show ?case by simp
next
  case (Cons x xs)
  have "dom (EventMessageUpdated.additional_properties (EventMessageUpdated_do r x)) \<inter> K = {}"
    using Cons.prems by (intro EMU_do_disjoint) simp_all
  then show ?case using Cons.IH Cons.prems(2) by simp
qed

lemma AMT_start_disjoint:
  "r = AssistantMessageTokens_init i out rs c \<or> AssistantMessageTokens_from_dict cf m = Inr r \<Longrightarrow>
   dom (AssistantMessageTokens.additional_properties r) \<inter> AssistantMessageTokens_keys = {}"
  using AMT_from_dict_bag(1)[of cf m r]
  by (auto simp: AssistantMessageTokens_init_def restrict_map_def split: if_splits)

lemma EMU_start_disjoint:
  "e = EventMessageUpdated_init t p \<or> EventMessageUpdated_from_dict pf m = Inr e \<Longrightarrow>
   dom (EventMessageUpdated.additional_properties e) \<inter> EventMessageUpdated_keys = {}"
  using EMU_from_dict_bag(1)[of pf m e]
  by (auto simp: EventMessageUpdated_init_def restrict_map_def split: if_splits)

text \<open>
  C7 (as stated: after any public operations the bag has no named-field key). It fails:
  \<open>__setitem__\<close> writes any key into the bag, \<open>"input"\<close> included.
\<close>

theorem setitem_named_key_counterexample:
  "''input'' \<in> AssistantMessageTokens_keys \<and>
   ''input'' \<in> dom (AssistantMessageTokens.additional_properties
      (foldl AssistantMessageTokens_do
         (AssistantMessageTokens_init (PInt 10) (PInt 1) (PInt 0) example_cache)
         [AMT_setitem ''input'' (PInt 99)]))"
  by (simp add: AssistantMessageTokens_keys_def AssistantMessageTokens_setitem_def
      dict_setitem_def AssistantMessageTokens_init_def)

text \<open>
  C7 (amended). A record that comes from the constructor or from \<open>from_dict\<close> has no
  named-field key in its bag, and this stays so under any sequence of \<open>__delitem__\<close>,
  assignments to named attributes and \<open>__setitem__\<close> with keys that are not
  named-field keys.
\<close>

theorem bag_keys_disjoint_from_named_keys:
  "((r = AssistantMessageTokens_init i out rs c \<or> AssistantMessageTokens_from_dict cf m = Inr r) \<and>
    (\<forall>x\<in>set xs. \<not> AMT_sets_key AssistantMessageTokens_keys x)
    \<longrightarrow> dom (AssistantMessageTokens.additional_properties (foldl AssistantMessageTokens_do r xs))
          \<inter> AssistantMessageTokens_keys = {}) \<and>
   ((e = EventMessageUpdated_init t p \<or> EventMessageUpdated_from_dict pf m' = Inr e) \<and>
    (\<forall>y\<in>set ys. \<not> EMU_sets_key EventMessageUpdated_keys y)
    \<longrightarrow> dom (EventMessageUpdated.additional_properties (foldl EventMessageUpdated_do e ys))
          \<inter> EventMessageUpdated_keys = {})"
  using AMT_run_disjoint[OF AMT_start_disjoint, of r i out rs c cf m xs]
    EMU_run_disjoint[OF EMU_start_disjoint, of e t p pf m' ys]
  by blast

theorem bag_keys_disjoint_from_named_keys_witness:
  "dom (AssistantMessageTokens.additional_properties
          (foldl AssistantMessageTokens_do example_tokens
             [AMT_setitem ''later'' (PInt 1), AMT_delitem ''extra'', AMT_delitem ''extra'',
              AMT_assign_input (PInt 5)]))
     \<inter> AssistantMessageTokens_keys = {} \<and>
   dom (EventMessageUpdated.additional_properties
          (foldl EventMessageUpdated_do
             (EventMessageUpdated_init (PStr ''message.updated'') example_properties)
             [EMU_setitem ''later'' (PInt 1), EMU_assign_type (PStr ''other'')]))
     \<inter> EventMessageUpdated_keys = {}"
proof -
  have a: "\<forall>x\<in>set [AMT_setitem ''later'' (PInt 1), AMT_delitem ''extra'', AMT_delitem ''extra'',
              AMT_assign_input (PInt 5) :: (pyval, pydict) PlainRecord AssistantMessageTokens_op].
             \<not> AMT_sets_key AssistantMessageTokens_keys x"
    by (simp add: AssistantMessageTokens_keys_def)
  have b: "\<forall>y\<in>set [EMU_setitem ''later'' (PInt 1), EMU_assign_type (PStr ''other'')
             :: (pyval, pydict) PlainRecord EventMessageUpdated_op].
             \<not> EMU_sets_key EventMessageUpdated_keys y"
    by (simp add: EventMessageUpdated_keys_def)
  show ?thesis
    using bag_keys_disjoint_from_named_keys
            [of example_tokens PNone PNone PNone example_cache
                "PlainRecord_from_dict cache_fields" example_tokens_dict
                "[AMT_setitem ''later'' (PInt 1), AMT_delitem ''extra'', AMT_delitem ''extra'',
                  AMT_assign_input (PInt 5)]"
                "EventMessageUpdated_init (PStr ''message.updated'') example_properties"
                "PStr ''message.updated''" example_properties
                "PlainRecord_from_dict properties_fields" example_event_dict
                "[EMU_setitem ''later'' (PInt 1), EMU_assign_type (PStr ''other'')]"]
          example_tokens_from_dict a b
    by blast
qed

lemma store_dict_pop_keeps:
  "n \<le> d \<Longrightarrow> take n (snd (store_dict_pop s d k)) = take n s"
  by (simp add: store_dict_pop_def split: option.splits)

lemma store_dict_pop_length:
  "length (snd (store_dict_pop s d k)) = length s"
  by (simp add: store_dict_pop_def split: option.splits)

lemma store_dict_pop_keeps':
  "store_dict_pop s d k = (x, s') \<Longrightarrow> n \<le> d \<Longrightarrow> take n s' = take n s \<and> length s' = length s"
  using store_dict_pop_keeps[of n d s k] store_dict_pop_length[of s d k] by simp

lemma take_prefix_length: "take (length xs) ys = xs \<Longrightarrow> length xs \<le> length ys"
  by (metis length_take min.cobounded1)

lemma nested_keeps:
  assumes "\<forall>s v. take (length s) (snd (cf s v)) = s" and "cf s v = (x, s')" and "n \<le> length s"
  shows "take n s' = take n s"
proof -
  from assms(1,2) have "take (length s) s' = s" by (metis snd_conv)
  then have "take n (take (length s) s') = take n s" by simp
  with assms(3) show ?thesis by (simp add: min_absorb1)
qed

lemma AMT_from_dict_store_keeps:
  assumes nested: "\<forall>s v. take (length s) (snd (cf s v)) = s"
  shows "take (length s0) (snd (AssistantMessageTokens_from_dict_store cf s0 src)) = s0"
proof -
  let ?n = "length s0"
  let ?s1 = "s0 @ [s0 ! src]"
  have s1: "take ?n ?s1 = s0" "length ?s1 = Suc ?n" by simp_all
  obtain x2 s2 where p2: "store_dict_pop ?s1 ?n ''input'' = (x2, s2)" by (cases "store_dict_pop ?s1 ?n ''input''")
  from store_dict_pop_keeps'[OF p2, of ?n] s1 have s2: "take ?n s2 = s0" "length s2 = Suc ?n" by simp_all
  obtain x3 s3 where p3: "store_dict_pop s2 ?n ''output'' = (x3, s3)" by (cases "store_dict_pop s2 ?n ''output''")
  from store_dict_pop_keeps'[OF p3, of ?n] s2 have s3: "take ?n s3 = s0" "length s3 = Suc ?n" by simp_all
  obtain x4 s4 where p4: "store_dict_pop s3 ?n ''reasoning'' = (x4, s4)" by (cases "store_dict_pop s3 ?n ''reasoning''")
  from store_dict_pop_keeps'[OF p4, of ?n] s3 have s4: "take ?n s4 = s0" "length s4 = Suc ?n" by simp_all
  obtain x5 s5 where p5: "store_dict_pop s4 ?n ''cache'' = (x5, s5)" by (cases "store_dict_pop s4 ?n ''cache''")
  from store_dict_pop_keeps'[OF p5, of ?n] s4 have s5: "take ?n s5 = s0" "length s5 = Suc ?n" by simp_all
  have s6: "take ?n s6 = s0 \<and> ?n \<le> length s6" if "cf s5 v = (x6, s6)" for v x6 s6
  proof -
    have t: "take ?n s6 = s0" using nested_keeps[OF nested that, of ?n] s5 by simp
    with take_prefix_length[OF t] show ?thesis by simp
  qed
  show ?thesis
    unfolding AssistantMessageTokens_from_dict_store_def store_dict_copy_def
    using s2 s3 s4 s5 s6
    by (auto simp: p2 p3 p4 p5 AssistantMessageTokens_init_store_def split: sum.splits prod.splits)
qed

lemma EMU_from_dict_store_keeps:
  assumes nested: "\<forall>s v. take (length s) (snd (pf s v)) = s"
  shows "take (length s0) (snd (EventMessageUpdated_from_dict_store pf s0 src)) = s0"
proof -
  let ?n = "length s0"
  let ?s1 = "s0 @ [s0 ! src]"
  have s1: "take ?n ?s1 = s0" "length ?s1 = Suc ?n" by simp_all
  obtain x2 s2 where p2: "store_dict_pop ?s1 ?n ''type'' = (x2, s2)" by (cases "store_dict_pop ?s1 ?n ''type''")
  from store_dict_pop_keeps'[OF p2, of ?n] s1 have s2: "take ?n s2 = s0" "length s2 = Suc ?n" by simp_all
  obtain x3 s3 where p3: "store_dict_pop s2 ?n ''properties'' = (x3, s3)" by (cases "store_dict_pop s2 ?n ''properties''")
  from store_dict_pop_keeps'[OF p3, of ?n] s2 have s3: "take ?n s3 = s0" "length s3 = Suc ?n" by simp_all
  have s4: "take ?n s4 = s0 \<and> ?n \<le> length s4" if "pf s3 v = (x4, s4)" for v x4 s4
  proof -
    have t: "take ?n s4 = s0" using nested_keeps[OF nested that, of ?n] s3 by simp
    with take_prefix_length[OF t] show ?thesis by simp
  qed
  show ?thesis
    unfolding EventMessageUpdated_from_dict_store_def store_dict_copy_def
    using s2 s3 s4
    by (auto simp: p2 p3 EventMessageUpdated_init_store_def split: sum.splits prod.splits)
qed

lemma take_all_nth: "take n ys = xs \<Longrightarrow> i < length xs \<Longrightarrow> ys ! i = xs ! i"
  by (metis length_take min_less_iff_conj nth_take)

lemma store_pop_fields_keeps:
  "n \<le> d \<Longrightarrow> take n (snd (store_pop_fields fs s d)) = take n s"
proof (induction fs arbitrary: s)
  case Nil
  then show ?case by simp
next
  case (Cons k ks)
  obtain x s' where p: "store_dict_pop s d k = (x, s')" by (cases "store_dict_pop s d k")
  from store_dict_pop_keeps'[OF p Cons.prems] have s': "take n s' = take n s" by simp
  show ?case
  proof (cases x)
    case (Inl e)
    with p s' show ?thesis by simp
  next
    case (Inr v)
    obtain y s'' where q: "store_pop_fields ks s' d = (y, s'')" by (cases "store_pop_fields ks s' d")
    from Cons.IH[OF Cons.prems, of s'] q have "take n s'' = take n s'" by simp
    with s' p Inr q show ?thesis by (cases y) simp_all
  qed
qed

lemma PlainRecord_from_dict_store_keeps:
  "take (length s) (snd (PlainRecord_from_dict_store fs s v)) = s"
proof (cases v)
  case (Imm x)
  then show ?thesis by (simp add: PlainRecord_from_dict_store_def)
next
  case (Ref a)
  let ?s1 = "s @ [s ! a]"
  obtain y s' where q: "store_pop_fields fs ?s1 (length s) = (y, s')"
    by (cases "store_pop_fields fs ?s1 (length s)")
  from store_pop_fields_keeps[of "length s" "length s" fs ?s1] q
  have "take (length s) s' = s" by simp
  with Ref q show ?thesis
    by (cases y) (simp_all add: PlainRecord_from_dict_store_def store_dict_copy_def)
qed

lemma AMT_from_dict_store_bag:
  "fst (AssistantMessageTokens_from_dict_store cf s src) = Inr obj \<Longrightarrow>
   AssistantMessageTokens.additional_properties obj = length s"
  unfolding AssistantMessageTokens_from_dict_store_def store_dict_copy_def
  by (auto simp: AssistantMessageTokens_init_store_def split: sum.splits prod.splits)

lemma EMU_from_dict_store_bag:
  "fst (EventMessageUpdated_from_dict_store pf s src) = Inr obj \<Longrightarrow>
   EventMessageUpdated.additional_properties obj = length s"
  unfolding EventMessageUpdated_from_dict_store_def store_dict_copy_def
  by (auto simp: EventMessageUpdated_init_store_def split: sum.splits prod.splits if_splits)

text \<open>
  C5. \<open>from_dict\<close> leaves the caller's map as it was, on success and on failure: the
  dictionary object it was given holds the same entries after the call, and so does
  every other object that existed before it (given that the nested \<open>from_dict\<close>, whose
  class is in another module, changes no existing object either). All pops go to the
  copy, a new object, which becomes the bag of the record.
\<close>

theorem from_dict_leaves_source_unchanged:
  "(src < length s \<and> (\<forall>s' v. take (length s') (snd (cf s' v)) = s') \<longrightarrow>
      snd (AssistantMessageTokens_from_dict_store cf s src) ! src = s ! src \<and>
      take (length s) (snd (AssistantMessageTokens_from_dict_store cf s src)) = s \<and>
      (fst (AssistantMessageTokens_from_dict_store cf s src) = Inr obj \<longrightarrow>
         AssistantMessageTokens.additional_properties obj = length s)) \<and>
   (src < length s \<and> (\<forall>s' v. take (length s') (snd (pf s' v)) = s') \<longrightarrow>
      snd (EventMessageUpdated_from_dict_store pf s src) ! src = s ! src \<and>
      take (length s) (snd (EventMessageUpdated_from_dict_store pf s src)) = s \<and>
      (fst (EventMessageUpdated_from_dict_store pf s src) = Inr obj' \<longrightarrow>
         EventMessageUpdated.additional_properties obj' = length s))"
proof -
  have "snd (AssistantMessageTokens_from_dict_store cf s src) ! src = s ! src"
    if "src < length s" "\<forall>s' v. take (length s') (snd (cf s' v)) = s'"
    using take_all_nth[OF AMT_from_dict_store_keeps[OF that(2), of s src] that(1)] .
  moreover have "snd (EventMessageUpdated_from_dict_store pf s src) ! src = s ! src"
    if "src < length s" "\<forall>s' v. take (length s') (snd (pf s' v)) = s'"
    using take_all_nth[OF EMU_from_dict_store_keeps[OF that(2), of s src] that(1)] .
  ultimately show ?thesis
    using AMT_from_dict_store_keeps[of cf s src] EMU_from_dict_store_keeps[of pf s src]
      AMT_from_dict_store_bag[of cf s src obj] EMU_from_dict_store_bag[of pf s src obj']
    by blast
qed

lemma example_tokens_store_result:
  "fst (AssistantMessageTokens_from_dict_store (PlainRecord_from_dict_store cache_fields)
          example_store 0) =
     Inr \<lparr>input_field = Imm (PInt 10), output = Imm (PInt 1), reasoning = Imm (PInt 0),
          cache = \<lparr>field_values = [Imm (PInt 3), Imm (PInt 4)], bag = 5\<rparr>,
          additional_properties = 4\<rparr>"
  by (simp add: AssistantMessageTokens_from_dict_store_def store_dict_copy_def store_dict_pop_def
      example_store_def PlainRecord_from_dict_store_def cache_fields_def
      AssistantMessageTokens_init_store_def)

lemma example_cache_store_result:
  "fst (AssistantMessageTokens_from_dict_store (PlainRecord_from_dict_store cache_fields)
          example_store 1) = Inl (KeyError ''input'')"
  by (simp add: AssistantMessageTokens_from_dict_store_def store_dict_copy_def store_dict_pop_def
      example_store_def)

lemma example_event_store_result:
  "fst (EventMessageUpdated_from_dict_store (PlainRecord_from_dict_store properties_fields)
          example_store 2) =
     Inr \<lparr>type_field = Imm (PStr ''message.updated''),
          properties = \<lparr>field_values = [Imm (PStr ''msg_1'')], bag = 5\<rparr>,
          additional_properties = 4\<rparr>"
  by (simp add: EventMessageUpdated_from_dict_store_def store_dict_copy_def store_dict_pop_def
      example_store_def PlainRecord_from_dict_store_def properties_fields_def
      EventMessageUpdated_init_store_def)

theorem from_dict_leaves_source_unchanged_witness:
  "snd (AssistantMessageTokens_from_dict_store (PlainRecord_from_dict_store cache_fields)
          example_store 0) ! 0 = example_store ! 0 \<and>
   take 4 (snd (AssistantMessageTokens_from_dict_store (PlainRecord_from_dict_store cache_fields)
          example_store 0)) = example_store \<and>
   snd (AssistantMessageTokens_from_dict_store (PlainRecord_from_dict_store cache_fields)
          example_store 1) ! 1 = example_store ! 1 \<and>
   fst (AssistantMessageTokens_from_dict_store (PlainRecord_from_dict_store cache_fields)
          example_store 1) = Inl (KeyError ''input'') \<and>
   snd (EventMessageUpdated_from_dict_store (PlainRecord_from_dict_store properties_fields)
          example_store 2) ! 2 = example_store ! 2 \<and>
   take 4 (snd (EventMessageUpdated_from_dict_store (PlainRecord_from_dict_store properties_fields)
          example_store 2)) = example_store"
proof -
  have len: "length example_store = 4" by (simp add: example_store_def)
  have c: "\<forall>s' v. take (length s') (snd (PlainRecord_from_dict_store cache_fields s' v)) = s'"
    by (simp add: PlainRecord_from_dict_store_keeps)
  have p: "\<forall>s' v. take (length s') (snd (PlainRecord_from_dict_store properties_fields s' v)) = s'"
    by (simp add: PlainRecord_from_dict_store_keeps)
  show ?thesis
    using from_dict_leaves_source_unchanged
            [of 0 example_store "PlainRecord_from_dict_store cache_fields" _
                "PlainRecord_from_dict_store properties_fields"]
          from_dict_leaves_source_unchanged
            [of 1 example_store "PlainRecord_from_dict_store cache_fields" _
                "PlainRecord_from_dict_store properties_fields"]
          from_dict_leaves_source_unchanged
            [of 2 example_store "PlainRecord_from_dict_store cache_fields" _
                "PlainRecord_from_dict_store properties_fields"]
          c p example_cache_store_result
    by (simp add: len)
qed

end
